theory Spec2Isabelle
  imports Main "HOL-Library.Sublist"
begin

section \<open>Values, exceptions and responses\<close>

text \<open>
  The values that travel through the web application: what \<open>request.get_json()\<close> returns,
  what \<open>jsonify\<close> sends and what the browser session stores. A Python \<open>dict\<close> is an
  association list in insertion order, \<open>None\<close> is \<open>JNull\<close>.
\<close>

datatype json =
    JNull
  | JBool bool
  | JNum int
  | JStr string
  | JArr "json list"
  | JObj "(string \<times> json) list"

text \<open>Python's truth value of such a value, as \<open>if x:\<close> and \<open>not x\<close> read it.\<close>

fun truthy :: "json \<Rightarrow> bool" where
  "truthy JNull = False"
| "truthy (JBool b) = b"
| "truthy (JNum n) = (n \<noteq> 0)"
| "truthy (JStr s) = (s \<noteq> [])"
| "truthy (JArr xs) = (xs \<noteq> [])"
| "truthy (JObj kvs) = (kvs \<noteq> [])"

text \<open>\<open>d.get(k)\<close> and \<open>d.get(k, default)\<close> on a dictionary.\<close>

definition dict_get :: "(string \<times> json) list \<Rightarrow> string \<Rightarrow> json \<Rightarrow> json" where
  "dict_get kvs k dflt = (case map_of kvs k of None \<Rightarrow> dflt | Some v \<Rightarrow> v)"

text \<open>A \<open>str\<close> or \<open>None\<close> held in a Python variable, as a JSON value and as a truth value.\<close>

definition opt_json :: "string option \<Rightarrow> json" where
  "opt_json x = (case x of None \<Rightarrow> JNull | Some s \<Rightarrow> JStr s)"

text \<open>\<open>str(x)\<close> inside an f-string, for a \<open>str\<close> or \<open>None\<close>.\<close>

definition str_opt :: "string option \<Rightarrow> string" where
  "str_opt x = (case x of None \<Rightarrow> ''None'' | Some s \<Rightarrow> s)"

text \<open>
  Exceptions carry their class and the text \<open>str(e)\<close> gives. \<open>LibraryError\<close> stands for
  whatever an external SDK raises.
\<close>

datatype exkind = ValueError | ConnectionError | AttributeError | TypeError | LibraryError

datatype exn = Exn exkind string

fun str_exn :: "exn \<Rightarrow> string" where
  "str_exn (Exn k m) = m"

text \<open>
  What a view function hands back to the framework: \<open>jsonify(body), status\<close>, a redirect to
  a named endpoint, a rendered template with its context, or an exception that leaves the
  view function uncaught (the framework then answers with status 500).
\<close>

datatype response =
    Jsonify nat json
  | Redirect string
  | Render string "(string \<times> json) list"
  | Unhandled exn

fun http_status :: "response \<Rightarrow> nat" where
  "http_status (Jsonify st body) = st"
| "http_status (Redirect ep) = 302"
| "http_status (Render t ctx) = 200"
| "http_status (Unhandled e) = 500"

section \<open>The process, the browser session and the outside world\<close>

text \<open>
  The \<open>instagrapi\<close> client is a third-party object. Only two things about it are read by
  this program: \<open>getattr(cl, 'logged_in', False)\<close> and the settings \<open>dump_settings\<close>
  writes.
\<close>

record client =
  logged_in :: bool
  settings :: string

definition Client :: client where
  "Client = \<lparr>logged_in = False, settings = []\<rparr>"

record pil_image =
  mode :: string
  pixels :: string

datatype disk_file = ImageFile pil_image | SettingsFile string | OtherFile string

text \<open>Calls that leave the process for a remote service, in the order they were made.\<close>

datatype call =
    TextCall string
  | ImageCall string
  | LoginCall json json
  | UploadCall string json

text \<open>
  The state a request runs against: the browser session (a dictionary), the process-wide
  client \<open>cl\<close>, the files on disk, the two credentials read from the process environment
  at start-up, the messages queued by \<open>flash\<close>, and the remote calls made so far.
\<close>

record world =
  session :: "string \<rightharpoonup> json"
  cl :: client
  fs :: "string \<rightharpoonup> disk_file"
  INSTAGRAM_USERNAME :: "string option"
  INSTAGRAM_PASSWORD :: "string option"
  flashes :: "(string \<times> string) list"
  trace :: "call list"

definition OUTPUT_DIR :: string where
  "OUTPUT_DIR = ''static/generated_images''"

definition INSTAGRAM_SESSION_FILE :: string where
  "INSTAGRAM_SESSION_FILE = ''instagrapi_session.json''"

text \<open>\<open>session.get(k)\<close>: the stored value, \<open>None\<close> when the key is absent.\<close>

definition session_get :: "(string \<rightharpoonup> json) \<Rightarrow> string \<Rightarrow> json" where
  "session_get s k = (case s k of None \<Rightarrow> JNull | Some v \<Rightarrow> v)"

definition flash :: "string \<Rightarrow> string \<Rightarrow> world \<Rightarrow> world" where
  "flash message category w = w\<lparr>flashes := flashes w @ [(category, message)]\<rparr>"

text \<open>\<open>os.remove(f) if os.path.exists(f) else None\<close>\<close>

definition remove_if_exists :: "string \<Rightarrow> world \<Rightarrow> world" where
  "remove_if_exists f w = w\<lparr>fs := (fs w)(f := None)\<rparr>"

section \<open>Prompt expansion\<close>

text \<open>
  \<open>str.isspace\<close> on one character and \<open>str.strip()\<close>. A \<open>char\<close> is read as the code
  point of the same number, so the table is Python's for the code points below 256.
\<close>

definition isspace :: "char \<Rightarrow> bool" where
  "isspace c = (of_char c \<in> set [9, 10, 11, 12, 13, 28, 29, 30, 31, 32, 133, 160 :: nat])"

definition strip :: "string \<Rightarrow> string" where
  "strip s = rev (dropWhile isspace (rev (dropWhile isspace s)))"

text \<open>
  The replies of the generative-AI service to the one request being served, and the rest of
  what \<open>generate_image\<close> reads from outside: the decoder, the clock, the path separator and
  the outcome of writing the file.

  \<open>text_reply\<close> is the outcome of the text model's \<open>generate_content\<close>: an exception, or a
  response whose \<open>.text\<close> is a string or \<open>None\<close>. \<open>resp_parts\<close> is what evaluating
  \<open>response.candidates[0].content.parts\<close> yields, \<open>inline_data\<close> is \<open>None\<close> for a part
  without a payload and otherwise the payload's \<open>.data\<close>, which may itself be \<open>None\<close>.
\<close>

record part =
  inline_data :: "string option option"

record image_response =
  resp_parts :: "exn + part list"
  resp_text :: "string option"

record gen_env =
  text_reply :: "exn + string option"
  image_reply :: "exn + image_response"
  image_open :: "string \<Rightarrow> exn + pil_image"
  now_stamp :: string
  os_sep :: string
  image_save :: "pil_image \<Rightarrow> string \<Rightarrow> exn option"

definition prompt_text :: "string \<Rightarrow> string" where
  "prompt_text user_input =
     ''\<newline>    Convert this short idea into a vivid, cinematic, and descriptive image prompt.'' @
     ''\<newline>    Include artistic details like lighting, environment, and mood.'' @
     ''\<newline>    Keep it under 60 words.'' @
     ''\<newline>\<newline>    User idea: '' @ [CHR 0x22] @ user_input @ [CHR 0x22] @ ''\<newline>    ''"

definition generate_prompt :: "world \<Rightarrow> gen_env \<Rightarrow> string \<Rightarrow> world \<times> string" where
  "generate_prompt w env user_input =
     (let w1 = w\<lparr>trace := trace w @ [TextCall (prompt_text user_input)]\<rparr>
      in case text_reply env of
           Inl e \<Rightarrow> (w1, user_input)
         | Inr None \<Rightarrow> (w1, user_input)
         | Inr (Some t) \<Rightarrow> (w1, strip t))"

section \<open>Image generation\<close>

fun first_inline :: "part list \<Rightarrow> string option" where
  "first_inline [] = None"
| "first_inline (p # ps) =
     (case inline_data p of Some d \<Rightarrow> d | None \<Rightarrow> first_inline ps)"

text \<open>The \<open>except Exception as e\<close> branch of \<open>generate_image\<close>.\<close>

definition image_error :: "world \<Rightarrow> exn \<Rightarrow> world \<times> string option \<times> string option \<times> string" where
  "image_error w e = (w, None, None, ''Error generating image: '' @ str_exn e)"

definition no_image_data :: "image_response \<Rightarrow> exn" where
  "no_image_data response =
     Exn ValueError (''No image data returned. Text response: '' @ str_opt (resp_text response))"

definition generate_image ::
  "world \<Rightarrow> gen_env \<Rightarrow> string \<Rightarrow> world \<times> string option \<times> string option \<times> string" where
  "generate_image w env prompt =
     (let w1 = w\<lparr>trace := trace w @ [ImageCall prompt]\<rparr>
      in case image_reply env of
           Inl e \<Rightarrow> image_error w1 e
         | Inr response \<Rightarrow>
            (case resp_parts response of
               Inl e \<Rightarrow> image_error w1 e
             | Inr ps \<Rightarrow>
                (case first_inline ps of
                   None \<Rightarrow> image_error w1 (no_image_data response)
                 | Some image_data \<Rightarrow>
                    if image_data = [] then image_error w1 (no_image_data response)
                    else
                      (case image_open env image_data of
                         Inl e \<Rightarrow> image_error w1 e
                       | Inr opened \<Rightarrow>
                          let image = (if mode opened \<noteq> ''RGB'' then opened\<lparr>mode := ''RGB''\<rparr>
                                       else opened);
                              image_filename = ''generated_image_'' @ now_stamp env @ ''.jpg'';
                              image_path = OUTPUT_DIR @ os_sep env @ image_filename
                          in (case image_save env image image_path of
                                Some e \<Rightarrow> image_error w1 e
                              | None \<Rightarrow>
                                 (w1\<lparr>fs := (fs w1)(image_path \<mapsto> ImageFile image)\<rparr>,
                                  Some image_path,
                                  Some (''/'' @ OUTPUT_DIR @ ''/'' @ image_filename),
                                  ''Image generation successful!''))))))"

section \<open>The routes of the undo buffer\<close>

definition generate :: "world \<Rightarrow> (string \<rightharpoonup> string) \<Rightarrow> gen_env \<Rightarrow> world \<times> response" where
  "generate w form env =
     (case form ''idea'' of
        None \<Rightarrow> (w, Jsonify 400 (JObj [(''error'', JStr ''Input cannot be empty.'')]))
      | Some user_idea \<Rightarrow>
         if user_idea = [] then
           (w, Jsonify 400 (JObj [(''error'', JStr ''Input cannot be empty.'')]))
         else
           (case generate_prompt w env user_idea of
              (w1, detailed_prompt) \<Rightarrow>
               (case generate_image w1 env detailed_prompt of
                  (w2, image_path, image_url, image_status) \<Rightarrow>
                   let result = JObj [(''detailed_prompt'', JStr detailed_prompt),
                                      (''image_url'', opt_json image_url),
                                      (''image_path'', opt_json image_path),
                                      (''image_status'', JStr image_status)]
                   in if truthy (opt_json image_path) \<and> truthy (opt_json image_url) then
                        (w2\<lparr>session := (session w2)
                               (''last_generated_image_data_prev'' \<mapsto>
                                  session_get (session w2) ''last_generated_image_data'',
                                ''last_generated_image_data'' \<mapsto> result)\<rparr>,
                         Jsonify 200 result)
                      else (w2, Jsonify 200 result))))"

definition get_last_image :: "world \<Rightarrow> world \<times> response" where
  "get_last_image w =
     (let prev_result = session_get (session w) ''last_generated_image_data_prev''
      in if truthy prev_result then
           (w\<lparr>session := (session w)
                  (''last_generated_image_data'' \<mapsto> prev_result,
                   ''last_generated_image_data_prev'' := None)\<rparr>,
            Jsonify 200 prev_result)
         else (w, Jsonify 404 (JObj [(''error'', JStr ''No previous image data found.'')])))"

text \<open>
  Whether a value is a recorded generation result: the test \<open>image_path and image_url\<close>
  of \<open>generate\<close>, read off the result dictionary.
\<close>

definition successful :: "json \<Rightarrow> bool" where
  "successful result =
     (case result of
        JObj kvs \<Rightarrow>
          truthy (dict_get kvs ''image_path'' JNull) \<and> truthy (dict_get kvs ''image_url'' JNull)
      | _ \<Rightarrow> False)"

text \<open>
  An answer reports an image error with a given status text: it is a JSON object whose
  \<open>image_url\<close> is null and whose \<open>image_status\<close> is that text, the text is not empty
  and \<open>Error\<close> occurs in it.
\<close>

definition reports_error :: "response \<Rightarrow> string \<Rightarrow> bool" where
  "reports_error resp status =
     (case resp of
        Jsonify st (JObj kvs) \<Rightarrow>
          map_of kvs ''image_url'' = Some JNull
          \<and> map_of kvs ''image_status'' = Some (JStr status)
          \<and> status \<noteq> []
          \<and> sublist ''Error'' status
      | _ \<Rightarrow> False)"

section \<open>Login and upload\<close>

text \<open>
  What the \<open>instagrapi\<close> client does during the one request being served. Each call
  may raise and may change the client object either way.
\<close>

record ig_env =
  load_settings :: "client \<Rightarrow> disk_file \<Rightarrow> exn option \<times> client"
  login :: "client \<Rightarrow> json \<Rightarrow> json \<Rightarrow> exn option \<times> client"
  dump_settings :: "client \<Rightarrow> exn option"
  photo_upload :: "client \<Rightarrow> string \<Rightarrow> json \<Rightarrow> exn option \<times> client"

text \<open>Lines 119 to 128 of \<open>login_instagram\<close>: the credentials it will use.\<close>

definition credentials :: "world \<Rightarrow> exn + json \<times> json" where
  "credentials w =
     (let username = session_get (session w) ''instagram_username'';
          password = session_get (session w) ''instagram_password''
      in if \<not> truthy username \<or> \<not> truthy password then
           (let username = opt_json (INSTAGRAM_USERNAME w);
                password = opt_json (INSTAGRAM_PASSWORD w)
            in if \<not> truthy username \<or> \<not> truthy password then
                 Inl (Exn ValueError ''Instagram credentials not found in session or .env file.'')
               else Inr (username, password))
         else Inr (username, password))"

text \<open>Lines 131 to 136: a session file, when there is one, is loaded; a failure is only printed.\<close>

definition load_session :: "world \<Rightarrow> ig_env \<Rightarrow> world" where
  "load_session w env =
     (case fs w INSTAGRAM_SESSION_FILE of
        None \<Rightarrow> w
      | Some f \<Rightarrow> w\<lparr>cl := snd (load_settings env (cl w) f)\<rparr>)"

text \<open>Lines 151 to 155: the \<open>except\<close> branch of the full login.\<close>

definition login_failed :: "world \<Rightarrow> exn \<Rightarrow> world \<times> (exn + unit)" where
  "login_failed w e =
     (remove_if_exists INSTAGRAM_SESSION_FILE w,
      Inl (Exn ConnectionError (''Failed to log in to Instagram: '' @ str_exn e)))"

text \<open>Lines 143 to 155: the full login and the saving of the session.\<close>

definition full_login :: "world \<Rightarrow> ig_env \<Rightarrow> json \<Rightarrow> json \<Rightarrow> world \<times> (exn + unit)" where
  "full_login w env username password =
     (let w1 = w\<lparr>trace := trace w @ [LoginCall username password]\<rparr>
      in case login env (cl w1) username password of
           (Some e, c) \<Rightarrow> login_failed (w1\<lparr>cl := c\<rparr>) e
         | (None, c) \<Rightarrow>
            (let w2 = w1\<lparr>cl := c\<rparr>
             in case dump_settings env c of
                  Some e \<Rightarrow> login_failed w2 e
                | None \<Rightarrow>
                   (w2\<lparr>fs := (fs w2)(INSTAGRAM_SESSION_FILE \<mapsto> SettingsFile (settings c))\<rparr>,
                    Inr ())))"

definition login_instagram :: "world \<Rightarrow> ig_env \<Rightarrow> world \<times> (exn + unit)" where
  "login_instagram w env =
     (case credentials w of
        Inl e \<Rightarrow> (w, Inl e)
      | Inr (username, password) \<Rightarrow>
         (let w1 = load_session w env
          in if logged_in (cl w1) then (w1, Inr ())
             else full_login w1 env username password))"

definition post_to_instagram :: "world \<Rightarrow> ig_env \<Rightarrow> string \<Rightarrow> json \<Rightarrow> world \<times> bool" where
  "post_to_instagram w env image_path caption =
     (case fs w image_path of
        None \<Rightarrow> (w, False)
      | Some f \<Rightarrow>
         (case login_instagram w env of
            (w1, Inl e) \<Rightarrow> (w1, False)
          | (w1, Inr u) \<Rightarrow>
             (let w2 = w1\<lparr>trace := trace w1 @ [UploadCall image_path caption]\<rparr>
              in case photo_upload env (cl w2) image_path caption of
                   (Some e, c) \<Rightarrow> (w2\<lparr>cl := c\<rparr>, False)
                 | (None, c) \<Rightarrow> (w2\<lparr>cl := c\<rparr>, True))))"

section \<open>The other routes\<close>

definition index :: "world \<Rightarrow> world \<times> response" where
  "index w =
     (let username = session_get (session w) ''instagram_username''
      in if \<not> truthy username then (w, Redirect ''instagram_login_page'')
         else (w, Render ''index.html''
                    [(''username'', username),
                     (''last_result'', session_get (session w) ''last_generated_image_data'')]))"

definition instagram_login_page :: "world \<Rightarrow> world \<times> response" where
  "instagram_login_page w = (w, Render ''instagram_login.html'' [])"

text \<open>The \<open>except\<close> branch of \<open>handle_instagram_login\<close>.\<close>

definition login_rejected :: "world \<Rightarrow> exn \<Rightarrow> world \<times> response" where
  "login_rejected w e =
     (flash (''Login failed. Please check your credentials. Error: '' @ str_exn e) ''error''
        (remove_if_exists INSTAGRAM_SESSION_FILE
           (w\<lparr>session := (session w)
                  (''instagram_username'' := None,
                   ''instagram_password'' := None,
                   ''last_generated_image_data'' := None)\<rparr>)),
      Redirect ''instagram_login_page'')"

definition handle_instagram_login ::
  "world \<Rightarrow> (string \<rightharpoonup> string) \<Rightarrow> ig_env \<Rightarrow> world \<times> response" where
  "handle_instagram_login w form env =
     (let username = opt_json (form ''username'');
          password = opt_json (form ''password'')
      in if \<not> truthy username \<or> \<not> truthy password then
           (flash ''Username and password are required.'' ''error'' w,
            Redirect ''instagram_login_page'')
         else
           (let w1 = w\<lparr>session := (session w)
                          (''instagram_username'' \<mapsto> username,
                           ''instagram_password'' \<mapsto> password)\<rparr>;
                w2 = w1\<lparr>trace := trace w1 @ [LoginCall username password]\<rparr>
            in case login env Client username password of
                 (Some e, temp_cl) \<Rightarrow> login_rejected w2 e
               | (None, temp_cl) \<Rightarrow>
                  (case dump_settings env temp_cl of
                     Some e \<Rightarrow> login_rejected w2 e
                   | None \<Rightarrow>
                      (flash ''Login successful! You can now generate and post images.''
                         ''success''
                         (w2\<lparr>fs := (fs w2)
                                (INSTAGRAM_SESSION_FILE \<mapsto> SettingsFile (settings temp_cl))\<rparr>),
                       Redirect ''index''))))"

definition logout :: "world \<Rightarrow> world \<times> response" where
  "logout w =
     (flash ''You have been logged out.'' ''success''
        ((remove_if_exists INSTAGRAM_SESSION_FILE
            (w\<lparr>session := (session w)
                   (''instagram_username'' := None,
                    ''instagram_password'' := None,
                    ''last_generated_image_data'' := None)\<rparr>))
         \<lparr>cl := Client\<rparr>),
      Redirect ''instagram_login_page'')"

text \<open>The class name Python prints in the message of an \<open>AttributeError\<close>.\<close>

fun type_name :: "json \<Rightarrow> string" where
  "type_name JNull = ''NoneType''"
| "type_name (JBool b) = ''bool''"
| "type_name (JNum n) = ''int''"
| "type_name (JStr s) = ''str''"
| "type_name (JArr xs) = ''list''"
| "type_name (JObj kvs) = ''dict''"

text \<open>
  \<open>data\<close> is what \<open>request.get_json()\<close> returned. \<open>data.get\<close> exists on a dictionary
  only; on any other value the attribute lookup raises before the session is looked at.
  \<open>Path(image_path)\<close> accepts a string only.
\<close>

definition post :: "world \<Rightarrow> json \<Rightarrow> ig_env \<Rightarrow> world \<times> response" where
  "post w data env =
     (case data of
        JObj kvs \<Rightarrow>
         (let image_path = dict_get kvs ''image_path'' JNull;
              caption = dict_get kvs ''caption'' (JStr ''Generated by Gemini API.'')
          in if session w ''instagram_username'' = None then
               (w, Jsonify 401
                     (JObj [(''success'', JBool False),
                            (''message'', JStr ''Please log in to Instagram first.''),
                            (''redirect_to'', JStr ''/login/instagram'')]))
             else if \<not> truthy image_path then
               (w, Jsonify 400
                     (JObj [(''success'', JBool False),
                            (''message'', JStr ''Image path is missing.'')]))
             else
               (case image_path of
                  JStr p \<Rightarrow>
                   (case post_to_instagram w env p caption of
                      (w1, ok) \<Rightarrow>
                       if ok then
                         (w1, Jsonify 200
                                (JObj [(''success'', JBool True),
                                       (''message'',
                                        JStr ''Image posted to Instagram successfully!'')]))
                       else
                         (w1, Jsonify 500
                                (JObj [(''success'', JBool False),
                                       (''message'',
                                        JStr (''Failed to post to Instagram. Check server logs ''
                                              @ ''for details or try logging out and back in.''))])))
                | _ \<Rightarrow>
                   (w, Unhandled
                         (Exn TypeError
                            (''expected str, bytes or os.PathLike object, not ''
                             @ type_name image_path)))))
      | _ \<Rightarrow>
         (w, Unhandled
               (Exn AttributeError
                  ([CHR 0x27] @ type_name data @ [CHR 0x27] @ '' object has no attribute ''
                   @ [CHR 0x27] @ ''get'' @ [CHR 0x27]))))"

section \<open>Requests in sequence\<close>

text \<open>One request of a browser, with what the outside world answers while it is served.\<close>

datatype request =
    GetIndex
  | GetLoginPage
  | PostLoginSubmit "string \<rightharpoonup> string" ig_env
  | GetLogout
  | PostGenerate "string \<rightharpoonup> string" gen_env
  | GetLastImage
  | PostPost json ig_env

fun handle :: "world \<Rightarrow> request \<Rightarrow> world \<times> response" where
  "handle w GetIndex = index w"
| "handle w GetLoginPage = instagram_login_page w"
| "handle w (PostLoginSubmit form env) = handle_instagram_login w form env"
| "handle w GetLogout = logout w"
| "handle w (PostGenerate form env) = generate w form env"
| "handle w GetLastImage = get_last_image w"
| "handle w (PostPost data env) = post w data env"

fun run :: "world \<Rightarrow> request list \<Rightarrow> world" where
  "run w [] = w"
| "run w (r # rs) = run (fst (handle w r)) rs"

text \<open>
  A request records a success when it is a \<open>/generate\<close> call that answers with a recorded
  result; \<open>no_success w rs\<close> says that none of the requests \<open>rs\<close>, served in turn from \<open>w\<close>,
  does.
\<close>

fun records_success :: "world \<Rightarrow> request \<Rightarrow> bool" where
  "records_success w (PostGenerate form env) =
     (case snd (generate w form env) of
        Jsonify st result \<Rightarrow> successful result
      | _ \<Rightarrow> False)"
| "records_success w r = False"

fun no_success :: "world \<Rightarrow> request list \<Rightarrow> bool" where
  "no_success w [] = True"
| "no_success w (r # rs) = (\<not> records_success w r \<and> no_success (fst (handle w r)) rs)"

section \<open>Concrete inputs\<close>

definition demo_world :: world where
  "demo_world = \<lparr>session = Map.empty, cl = Client, fs = Map.empty,
                  INSTAGRAM_USERNAME = None, INSTAGRAM_PASSWORD = None,
                  flashes = [], trace = []\<rparr>"

definition demo_form :: "string \<Rightarrow> (string \<rightharpoonup> string)" where
  "demo_form idea = Map.empty(''idea'' \<mapsto> idea)"

definition demo_no_form :: "string \<rightharpoonup> string" where
  "demo_no_form = Map.empty"

definition demo_env_ok :: "string \<Rightarrow> string \<Rightarrow> gen_env" where
  "demo_env_ok t stamp =
     \<lparr>text_reply = Inr (Some t),
      image_reply =
        Inr \<lparr>resp_parts = Inr [\<lparr>inline_data = None\<rparr>, \<lparr>inline_data = Some (Some ''JFIF'')\<rparr>],
             resp_text = None\<rparr>,
      image_open = (\<lambda>d. Inr \<lparr>mode = ''RGBA'', pixels = d\<rparr>),
      now_stamp = stamp,
      os_sep = ''/'',
      image_save = (\<lambda>i p. None)\<rparr>"

definition demo_env_fail :: gen_env where
  "demo_env_fail =
     \<lparr>text_reply = Inl (Exn LibraryError ''503 UNAVAILABLE''),
      image_reply = Inl (Exn LibraryError ''503 UNAVAILABLE''),
      image_open = (\<lambda>d. Inl (Exn LibraryError ''cannot identify image file'')),
      now_stamp = ''20251030_113545'',
      os_sep = ''/'',
      image_save = (\<lambda>i p. None)\<rparr>"

definition demo_A :: json where
  "demo_A =
     JObj [(''detailed_prompt'', JStr ''A cat''),
           (''image_url'',
            JStr ''/static/generated_images/generated_image_20251030_113543.jpg''),
           (''image_path'',
            JStr ''static/generated_images/generated_image_20251030_113543.jpg''),
           (''image_status'', JStr ''Image generation successful!'')]"

definition demo_B :: json where
  "demo_B =
     JObj [(''detailed_prompt'', JStr ''A dog''),
           (''image_url'',
            JStr ''/static/generated_images/generated_image_20251030_113544.jpg''),
           (''image_path'',
            JStr ''static/generated_images/generated_image_20251030_113544.jpg''),
           (''image_status'', JStr ''Image generation successful!'')]"

text \<open>The world after two successful generations, \<open>demo_A\<close> then \<open>demo_B\<close>.\<close>

definition demo_world_AB :: world where
  "demo_world_AB =
     fst (generate
            (fst (generate demo_world (demo_form ''cat'')
                    (demo_env_ok '' A cat  '' ''20251030_113543'')))
            (demo_form ''dog'') (demo_env_ok ''A dog'' ''20251030_113544''))"

definition demo_ig_fail :: ig_env where
  "demo_ig_fail =
     \<lparr>load_settings = (\<lambda>c f. (None, c)),
      login = (\<lambda>c u p. (Some (Exn LibraryError ''bad_password''), c)),
      dump_settings = (\<lambda>c. None),
      photo_upload = (\<lambda>c p cap. (None, c))\<rparr>"

definition demo_ig_ok :: ig_env where
  "demo_ig_ok =
     \<lparr>load_settings = (\<lambda>c f. (None, c)),
      login = (\<lambda>c u p. (None, \<lparr>logged_in = True, settings = ''sessionid''\<rparr>)),
      dump_settings = (\<lambda>c. None),
      photo_upload = (\<lambda>c p cap. (None, c))\<rparr>"

text \<open>Requests none of which records a successful generation.\<close>

definition demo_requests :: "request list" where
  "demo_requests =
     [PostGenerate (demo_form ''a cat in a hat'') demo_env_fail,
      PostGenerate demo_no_form (demo_env_ok ''A cat'' ''20251030_113546''),
      GetIndex,
      PostPost (JObj [(''caption'', JStr ''hello'')]) demo_ig_ok,
      GetLogout,
      PostLoginSubmit demo_no_form demo_ig_fail,
      GetLastImage]"

text \<open>A logged-in browser session with a stale session file on disk.\<close>

definition demo_world_login :: world where
  "demo_world_login =
     \<lparr>session = [''instagram_username'' \<mapsto> JStr ''someone'',
                 ''instagram_password'' \<mapsto> JStr ''secret''],
      cl = Client,
      fs = [INSTAGRAM_SESSION_FILE \<mapsto> SettingsFile ''stale''],
      INSTAGRAM_USERNAME = None, INSTAGRAM_PASSWORD = None,
      flashes = [], trace = []\<rparr>"

text \<open>The image service answers with text only: no part carries a payload.\<close>

definition demo_env_no_image :: gen_env where
  "demo_env_no_image =
     \<lparr>text_reply = Inr (Some ''A cat''),
      image_reply =
        Inr \<lparr>resp_parts = Inr [\<lparr>inline_data = None\<rparr>],
             resp_text = Some ''I cannot draw that.''\<rparr>,
      image_open = (\<lambda>d. Inr \<lparr>mode = ''RGB'', pixels = d\<rparr>),
      now_stamp = ''20251030_113547'',
      os_sep = ''/'',
      image_save = (\<lambda>i p. None)\<rparr>"

section \<open>Properties\<close>

lemmas demo_defs = demo_world_def demo_form_def demo_no_form_def demo_env_ok_def
  demo_env_fail_def demo_A_def demo_B_def demo_world_AB_def demo_ig_fail_def demo_ig_ok_def

lemmas eval_defs = generate_def generate_prompt_def generate_image_def image_error_def
  no_image_data_def get_last_image_def session_get_def opt_json_def str_opt_def strip_def
  isspace_def OUTPUT_DIR_def Let_def successful_def dict_get_def Client_def prompt_text_def

lemma generate_prompt_session: "session (fst (generate_prompt w env idea)) = session w"
  by (simp add: generate_prompt_def Let_def split: sum.splits option.splits)

lemma generate_image_session: "session (fst (generate_image w env p)) = session w"
  by (simp add: generate_image_def image_error_def Let_def split: sum.splits option.splits)

lemma generate_image_shape:
  "generate_image w env p = (w2, ip, iu, st) \<Longrightarrow>
     (ip = None \<and> iu = None \<and> (\<exists>e. st = ''Error generating image: '' @ str_exn e)) \<or>
     (\<exists>a b. ip = Some a \<and> a \<noteq> [] \<and> iu = Some b \<and> b \<noteq> [] \<and> st = ''Image generation successful!'')"
  by (auto simp add: generate_image_def image_error_def Let_def OUTPUT_DIR_def
      split: sum.splits option.splits if_splits)

lemma generate_empty:
  "form ''idea'' = None \<or> form ''idea'' = Some [] \<Longrightarrow>
   generate w form env = (w, Jsonify 400 (JObj [(''error'', JStr ''Input cannot be empty.'')]))"
  by (auto simp add: generate_def)

lemma generate_unfold:
  assumes "form ''idea'' = Some idea" and "idea \<noteq> []"
    and "generate_prompt w env idea = (w1, dp)"
    and "generate_image w1 env dp = (w2, ip, iu, status)"
  shows "generate w form env =
     (if truthy (opt_json ip) \<and> truthy (opt_json iu) then
        w2\<lparr>session := (session w2)
              (''last_generated_image_data_prev'' \<mapsto>
                 session_get (session w2) ''last_generated_image_data'',
               ''last_generated_image_data'' \<mapsto>
                 JObj [(''detailed_prompt'', JStr dp), (''image_url'', opt_json iu),
                       (''image_path'', opt_json ip), (''image_status'', JStr status)])\<rparr>
      else w2,
      Jsonify 200 (JObj [(''detailed_prompt'', JStr dp), (''image_url'', opt_json iu),
                         (''image_path'', opt_json ip), (''image_status'', JStr status)]))"
  using assms by (simp add: generate_def Let_def)

lemma generate_is_jsonify: "\<exists>st R. snd (generate w form env) = Jsonify st R"
  by (simp add: generate_def Let_def split: option.splits prod.splits)

lemma generate_session:
  assumes g: "snd (generate w form env) = Jsonify st R"
  shows "session (fst (generate w form env)) =
          (if successful R
           then (session w)(''last_generated_image_data_prev'' \<mapsto>
                              session_get (session w) ''last_generated_image_data'',
                            ''last_generated_image_data'' \<mapsto> R)
           else session w)"
proof (cases "form ''idea'' = None \<or> form ''idea'' = Some []")
  case True
  from generate_empty [where form = form and w = w and env = env, OF True] g show ?thesis
    by (auto simp add: successful_def dict_get_def)
next
  case False
  then obtain idea where idea: "form ''idea'' = Some idea" "idea \<noteq> []"
    by auto
  obtain w1 dp where gp: "generate_prompt w env idea = (w1, dp)"
    by (cases "generate_prompt w env idea")
  obtain w2 ip iu status where gi: "generate_image w1 env dp = (w2, ip, iu, status)"
    by (cases "generate_image w1 env dp") auto
  have s1: "session w1 = session w"
    using generate_prompt_session [of w env idea] gp by simp
  have s2: "session w2 = session w"
    using generate_image_session [of w1 env dp] gi s1 by simp
  note u = generate_unfold [where form = form, OF idea gp gi]
  from generate_image_shape [OF gi] show ?thesis
  proof
    assume "ip = None \<and> iu = None \<and> (\<exists>e. status = ''Error generating image: '' @ str_exn e)"
    with u g s2 show ?thesis
      by (auto simp add: successful_def dict_get_def opt_json_def)
  next
    assume "\<exists>a b. ip = Some a \<and> a \<noteq> [] \<and> iu = Some b \<and> b \<noteq> [] \<and> status = ''Image generation successful!''"
    with u g s2 show ?thesis
      by (auto simp add: successful_def dict_get_def opt_json_def)
  qed
qed

lemma successful_truthy: "successful R \<Longrightarrow> truthy R"
  by (cases R) (auto simp add: successful_def dict_get_def)

lemma get_last_image_empty:
  "\<not> truthy (session_get (session w) ''last_generated_image_data_prev'') \<Longrightarrow>
   get_last_image w = (w, Jsonify 404 (JObj [(''error'', JStr ''No previous image data found.'')]))"
  by (simp add: get_last_image_def Let_def)

lemma get_last_image_clears:
  "\<not> truthy (session_get (session (fst (get_last_image w))) ''last_generated_image_data_prev'')"
  by (simp add: get_last_image_def Let_def session_get_def)

text \<open>
  C4. \<open>POST /generate\<close> with an empty or missing \<open>idea\<close> field answers with status 400 and
  leaves the whole state as it was: no session key is written, so neither slot of the undo
  buffer changes, and no call to the text or image service is added to the trace.
\<close>
theorem generate_empty_idea_400:
  assumes "form ''idea'' = None \<or> form ''idea'' = Some []"
  shows "generate w form env =
           (w, Jsonify 400 (JObj [(''error'', JStr ''Input cannot be empty.'')]))
         \<and> http_status (snd (generate w form env)) = 400
         \<and> session (fst (generate w form env)) = session w
         \<and> trace (fst (generate w form env)) = trace w"
  using generate_empty [where form = form and w = w and env = env, OF assms] by simp

theorem generate_empty_idea_400_witness:
  "demo_no_form ''idea'' = None
   \<and> demo_form [] ''idea'' = Some []
   \<and> generate demo_world_AB demo_no_form demo_env_fail =
       (demo_world_AB, Jsonify 400 (JObj [(''error'', JStr ''Input cannot be empty.'')]))
   \<and> generate demo_world_AB (demo_form []) demo_env_fail =
       (demo_world_AB, Jsonify 400 (JObj [(''error'', JStr ''Input cannot be empty.'')]))"
proof -
  have h1: "demo_no_form ''idea'' = None \<or> demo_no_form ''idea'' = Some []"
    by (simp add: demo_no_form_def)
  have h2: "demo_form [] ''idea'' = None \<or> demo_form [] ''idea'' = Some []"
    by (simp add: demo_form_def)
  from generate_empty_idea_400 [where form = demo_no_form and w = demo_world_AB
        and env = demo_env_fail, OF h1]
    generate_empty_idea_400 [where form = "demo_form []" and w = demo_world_AB
        and env = demo_env_fail, OF h2]
  show ?thesis
    by (simp add: demo_no_form_def demo_form_def)
qed

text \<open>
  C1. From any state, let two calls of \<open>/generate\<close> in a row answer with recorded results
  \<open>A\<close> and then \<open>B\<close>. Afterwards the current slot holds \<open>B\<close> and the previous slot holds
  \<open>A\<close>; \<open>GET /last_image\<close> then answers with \<open>A\<close>, and leaves \<open>A\<close> in the current slot and
  the previous slot empty.
\<close>
theorem undo_buffer_shift_and_pop:
  assumes a: "snd (generate w0 formA envA) = Jsonify 200 A" and sa: "successful A"
    and w1: "w1 = fst (generate w0 formA envA)"
    and b: "snd (generate w1 formB envB) = Jsonify 200 B" and sb: "successful B"
    and w2: "w2 = fst (generate w1 formB envB)"
  shows "session w2 ''last_generated_image_data'' = Some B
       \<and> session w2 ''last_generated_image_data_prev'' = Some A
       \<and> snd (get_last_image w2) = Jsonify 200 A
       \<and> session (fst (get_last_image w2)) ''last_generated_image_data'' = Some A
       \<and> session (fst (get_last_image w2)) ''last_generated_image_data_prev'' = None"
proof -
  have c1: "session w1 ''last_generated_image_data'' = Some A"
    using generate_session [OF a] sa w1 by simp
  have s2: "session w2 = (session w1)(''last_generated_image_data_prev'' \<mapsto>
                              session_get (session w1) ''last_generated_image_data'',
                            ''last_generated_image_data'' \<mapsto> B)"
    using generate_session [OF b] sb w2 by simp
  have cur: "session w2 ''last_generated_image_data'' = Some B"
    using s2 by simp
  have prev: "session w2 ''last_generated_image_data_prev'' = Some A"
    using s2 c1 by (simp add: session_get_def)
  have t: "truthy A"
    using sa by (rule successful_truthy)
  from cur prev t show ?thesis
    by (simp add: get_last_image_def Let_def session_get_def)
qed

theorem undo_buffer_shift_and_pop_witness:
  "successful demo_A \<and> successful demo_B
   \<and> session demo_world_AB ''last_generated_image_data'' = Some demo_B
   \<and> session demo_world_AB ''last_generated_image_data_prev'' = Some demo_A
   \<and> snd (get_last_image demo_world_AB) = Jsonify 200 demo_A
   \<and> session (fst (get_last_image demo_world_AB)) ''last_generated_image_data'' = Some demo_A
   \<and> session (fst (get_last_image demo_world_AB)) ''last_generated_image_data_prev'' = None"
proof -
  let ?w1 = "fst (generate demo_world (demo_form ''cat'')
                    (demo_env_ok '' A cat  '' ''20251030_113543''))"
  have a: "snd (generate demo_world (demo_form ''cat'')
                  (demo_env_ok '' A cat  '' ''20251030_113543'')) = Jsonify 200 demo_A"
    by (simp add: demo_defs eval_defs)
  have sa: "successful demo_A"
    by (simp add: demo_A_def successful_def dict_get_def)
  have b: "snd (generate ?w1 (demo_form ''dog'') (demo_env_ok ''A dog'' ''20251030_113544''))
             = Jsonify 200 demo_B"
    by (simp add: demo_defs eval_defs)
  have sb: "successful demo_B"
    by (simp add: demo_B_def successful_def dict_get_def)
  have w2: "demo_world_AB =
              fst (generate ?w1 (demo_form ''dog'') (demo_env_ok ''A dog'' ''20251030_113544''))"
    by (simp only: demo_world_AB_def)
  from undo_buffer_shift_and_pop [OF a sa refl b sb w2] sa sb show ?thesis
    by simp
qed

text \<open>
  C3. When the idea is not empty and \<open>generate_image\<close> returns its error triple, the call
  of \<open>/generate\<close> leaves the browser session as it was; in particular both slots of the undo
  buffer read as before.
\<close>
theorem failed_generation_keeps_buffer:
  assumes "form ''idea'' = Some idea" and "idea \<noteq> []"
    and "generate_prompt w env idea = (w1, detailed_prompt)"
    and "generate_image w1 env detailed_prompt = (w2, None, None, image_status)"
  shows "session (fst (generate w form env)) = session w
       \<and> session_get (session (fst (generate w form env))) ''last_generated_image_data'' =
           session_get (session w) ''last_generated_image_data''
       \<and> session_get (session (fst (generate w form env))) ''last_generated_image_data_prev'' =
           session_get (session w) ''last_generated_image_data_prev''"
proof -
  have s1: "session w1 = session w"
    using generate_prompt_session [of w env idea] assms(3) by simp
  have s2: "session w2 = session w"
    using generate_image_session [of w1 env detailed_prompt] assms(4) s1 by simp
  have "fst (generate w form env) = w2"
    using generate_unfold [where form = form, OF assms] by (simp add: opt_json_def)
  with s2 show ?thesis by simp
qed

theorem failed_generation_keeps_buffer_witness:
  "demo_form ''a cat in a hat'' ''idea'' = Some ''a cat in a hat''
   \<and> fst (snd (generate_image
                 (fst (generate_prompt demo_world_AB demo_env_fail ''a cat in a hat''))
                 demo_env_fail
                 (snd (generate_prompt demo_world_AB demo_env_fail ''a cat in a hat'')))) = None
   \<and> session_get
         (session (fst (generate demo_world_AB (demo_form ''a cat in a hat'') demo_env_fail)))
         ''last_generated_image_data'' = demo_B
   \<and> session_get
         (session (fst (generate demo_world_AB (demo_form ''a cat in a hat'') demo_env_fail)))
         ''last_generated_image_data_prev'' = demo_A"
proof -
  let ?idea = "''a cat in a hat''"
  let ?gp = "generate_prompt demo_world_AB demo_env_fail ?idea"
  let ?gi = "generate_image (fst ?gp) demo_env_fail (snd ?gp)"
  have h1: "demo_form ?idea ''idea'' = Some ?idea"
    by (simp add: demo_form_def)
  have h2: "?idea \<noteq> []"
    by simp
  have h3: "?gp = (fst ?gp, snd ?gp)"
    by simp
  have h4: "?gi = (fst ?gi, None, None, ''Error generating image: 503 UNAVAILABLE'')"
    by (simp add: generate_image_def image_error_def demo_env_fail_def Let_def)
  have cur: "session_get (session demo_world_AB) ''last_generated_image_data'' = demo_B"
    by (simp add: demo_defs eval_defs)
  have prev: "session_get (session demo_world_AB) ''last_generated_image_data_prev'' = demo_A"
    by (simp add: demo_defs eval_defs)
  have n: "fst (snd ?gi) = None"
    using h4 by (metis fst_conv snd_conv)
  from failed_generation_keeps_buffer [where form = "demo_form ?idea", OF h1 h2 h3 h4] h1 n cur prev
  show ?thesis
    by simp
qed

lemma error_status_sublist: "sublist ''Error'' (''Error generating image: '' @ m)"
proof -
  have "prefix ''Error'' (''Error generating image: '' @ m)"
    by simp
  then show ?thesis
    by (rule prefix_imp_sublist)
qed

lemma generate_reports_error:
  assumes "form ''idea'' = Some idea" and "idea \<noteq> []"
    and "generate_prompt w env idea = (w1, dp)"
    and "generate_image w1 env dp = (w2, None, None, ''Error generating image: '' @ str_exn e)"
  shows "reports_error (snd (generate w form env)) (''Error generating image: '' @ str_exn e)"
  using generate_unfold [where form = form, OF assms] error_status_sublist [of "str_exn e"]
  by (simp add: reports_error_def opt_json_def)

lemma generate_image_path_None:
  assumes "fst (snd (generate_image w env p)) = None"
  shows "\<exists>w2 e. generate_image w env p = (w2, None, None, ''Error generating image: '' @ str_exn e)"
proof -
  obtain w2 ip iu st where gi: "generate_image w env p = (w2, ip, iu, st)"
    by (cases "generate_image w env p") auto
  with assms have "ip = None" by simp
  with generate_image_shape [OF gi] gi show ?thesis by auto
qed

text \<open>
  C9. Let the idea be non-empty and let image generation fail, in any of the ways that lead
  into the \<open>except\<close> branch of \<open>generate_image\<close>: the call to the image service raises;
  reading the parts of its reply raises; no part carries a payload, or the first payload is
  empty; the payload cannot be opened as an image; the image cannot be saved. Then
  \<open>/generate\<close> answers with a body whose \<open>image_url\<close> is null and whose
  \<open>image_status\<close> is \<open>Error generating image: \<close> followed by the text of the
  exception, a non-empty string that contains \<open>Error\<close>. The same holds whenever
  \<open>generate_image\<close> returns no path.
\<close>
theorem generate_image_failure_response:
  assumes "form ''idea'' = Some idea" and "idea \<noteq> []"
    and "generate_prompt w env idea = (w1, detailed_prompt)"
  shows
    "(\<forall>e. image_reply env = Inl e \<longrightarrow>
        reports_error (snd (generate w form env)) (''Error generating image: '' @ str_exn e))
   \<and> (\<forall>response e.
        image_reply env = Inr response \<and> resp_parts response = Inl e \<longrightarrow>
        reports_error (snd (generate w form env)) (''Error generating image: '' @ str_exn e))
   \<and> (\<forall>response ps.
        image_reply env = Inr response \<and> resp_parts response = Inr ps
        \<and> (first_inline ps = None \<or> first_inline ps = Some []) \<longrightarrow>
        reports_error (snd (generate w form env))
          (''Error generating image: '' @ str_exn (no_image_data response)))
   \<and> (\<forall>response ps image_data e.
        image_reply env = Inr response \<and> resp_parts response = Inr ps
        \<and> first_inline ps = Some image_data \<and> image_data \<noteq> []
        \<and> image_open env image_data = Inl e \<longrightarrow>
        reports_error (snd (generate w form env)) (''Error generating image: '' @ str_exn e))
   \<and> (\<forall>response ps image_data opened e.
        image_reply env = Inr response \<and> resp_parts response = Inr ps
        \<and> first_inline ps = Some image_data \<and> image_data \<noteq> []
        \<and> image_open env image_data = Inr opened
        \<and> image_save env (if mode opened \<noteq> ''RGB'' then opened\<lparr>mode := ''RGB''\<rparr> else opened)
              (OUTPUT_DIR @ os_sep env @ ''generated_image_'' @ now_stamp env @ ''.jpg'')
            = Some e \<longrightarrow>
        reports_error (snd (generate w form env)) (''Error generating image: '' @ str_exn e))
   \<and> (fst (snd (generate_image w1 env detailed_prompt)) = None \<longrightarrow>
        (\<exists>e. reports_error (snd (generate w form env))
                (''Error generating image: '' @ str_exn e)))"
proof (intro conjI allI impI)
  fix e assume "image_reply env = Inl e"
  then have "generate_image w1 env detailed_prompt =
      (w1\<lparr>trace := trace w1 @ [ImageCall detailed_prompt]\<rparr>, None, None,
       ''Error generating image: '' @ str_exn e)"
    by (simp add: generate_image_def image_error_def Let_def)
  with assms show "reports_error (snd (generate w form env))
      (''Error generating image: '' @ str_exn e)"
    by (rule generate_reports_error)
next
  fix response e assume "image_reply env = Inr response \<and> resp_parts response = Inl e"
  then have "generate_image w1 env detailed_prompt =
      (w1\<lparr>trace := trace w1 @ [ImageCall detailed_prompt]\<rparr>, None, None,
       ''Error generating image: '' @ str_exn e)"
    by (simp add: generate_image_def image_error_def Let_def)
  with assms show "reports_error (snd (generate w form env))
      (''Error generating image: '' @ str_exn e)"
    by (rule generate_reports_error)
next
  fix response ps
  assume "image_reply env = Inr response \<and> resp_parts response = Inr ps
        \<and> (first_inline ps = None \<or> first_inline ps = Some [])"
  then have "generate_image w1 env detailed_prompt =
      (w1\<lparr>trace := trace w1 @ [ImageCall detailed_prompt]\<rparr>, None, None,
       ''Error generating image: '' @ str_exn (no_image_data response))"
    by (auto simp add: generate_image_def image_error_def Let_def)
  with assms show "reports_error (snd (generate w form env))
      (''Error generating image: '' @ str_exn (no_image_data response))"
    by (rule generate_reports_error)
next
  fix response ps image_data e
  assume "image_reply env = Inr response \<and> resp_parts response = Inr ps
        \<and> first_inline ps = Some image_data \<and> image_data \<noteq> []
        \<and> image_open env image_data = Inl e"
  then have "generate_image w1 env detailed_prompt =
      (w1\<lparr>trace := trace w1 @ [ImageCall detailed_prompt]\<rparr>, None, None,
       ''Error generating image: '' @ str_exn e)"
    by (simp add: generate_image_def image_error_def Let_def)
  with assms show "reports_error (snd (generate w form env))
      (''Error generating image: '' @ str_exn e)"
    by (rule generate_reports_error)
next
  fix response ps image_data opened e
  assume "image_reply env = Inr response \<and> resp_parts response = Inr ps
        \<and> first_inline ps = Some image_data \<and> image_data \<noteq> []
        \<and> image_open env image_data = Inr opened
        \<and> image_save env (if mode opened \<noteq> ''RGB'' then opened\<lparr>mode := ''RGB''\<rparr> else opened)
              (OUTPUT_DIR @ os_sep env @ ''generated_image_'' @ now_stamp env @ ''.jpg'')
            = Some e"
  then have "generate_image w1 env detailed_prompt =
      (w1\<lparr>trace := trace w1 @ [ImageCall detailed_prompt]\<rparr>, None, None,
       ''Error generating image: '' @ str_exn e)"
    by (simp add: generate_image_def image_error_def Let_def)
  with assms show "reports_error (snd (generate w form env))
      (''Error generating image: '' @ str_exn e)"
    by (rule generate_reports_error)
next
  assume "fst (snd (generate_image w1 env detailed_prompt)) = None"
  then obtain w2 e where "generate_image w1 env detailed_prompt =
      (w2, None, None, ''Error generating image: '' @ str_exn e)"
    using generate_image_path_None by blast
  with assms have "reports_error (snd (generate w form env))
      (''Error generating image: '' @ str_exn e)"
    by (rule generate_reports_error)
  then show "\<exists>e. reports_error (snd (generate w form env))
      (''Error generating image: '' @ str_exn e)" ..
qed

theorem generate_image_failure_response_witness:
  "demo_form ''a cat in a hat'' ''idea'' = Some ''a cat in a hat''
   \<and> image_reply demo_env_fail = Inl (Exn LibraryError ''503 UNAVAILABLE'')
   \<and> reports_error (snd (generate demo_world (demo_form ''a cat in a hat'') demo_env_fail))
        ''Error generating image: 503 UNAVAILABLE''
   \<and> snd (generate demo_world (demo_form ''a cat in a hat'') demo_env_fail) =
       Jsonify 200 (JObj [(''detailed_prompt'', JStr ''a cat in a hat''),
                          (''image_url'', JNull),
                          (''image_path'', JNull),
                          (''image_status'', JStr ''Error generating image: 503 UNAVAILABLE'')])
   \<and> first_inline [\<lparr>inline_data = None\<rparr>] = None
   \<and> reports_error (snd (generate demo_world (demo_form ''a cat in a hat'') demo_env_no_image))
        ''Error generating image: No image data returned. Text response: I cannot draw that.''
   \<and> snd (generate demo_world (demo_form ''a cat in a hat'') demo_env_no_image) =
       Jsonify 200
         (JObj [(''detailed_prompt'', JStr ''A cat''),
                (''image_url'', JNull),
                (''image_path'', JNull),
                (''image_status'',
                 JStr (''Error generating image: No image data returned. ''
                       @ ''Text response: I cannot draw that.''))])"
proof -
  let ?idea = "''a cat in a hat''"
  let ?r = "\<lparr>resp_parts = Inr [\<lparr>inline_data = None\<rparr>], resp_text = Some ''I cannot draw that.''\<rparr>"
  have h1: "demo_form ?idea ''idea'' = Some ?idea"
    by (simp add: demo_form_def)
  have h2: "?idea \<noteq> []"
    by simp
  have g1: "generate_prompt demo_world demo_env_fail ?idea =
              (fst (generate_prompt demo_world demo_env_fail ?idea),
               snd (generate_prompt demo_world demo_env_fail ?idea))"
    by simp
  have g2: "generate_prompt demo_world demo_env_no_image ?idea =
              (fst (generate_prompt demo_world demo_env_no_image ?idea),
               snd (generate_prompt demo_world demo_env_no_image ?idea))"
    by simp
  have c1: "image_reply demo_env_fail = Inl (Exn LibraryError ''503 UNAVAILABLE'')"
    by (simp add: demo_env_fail_def)
  have c3: "image_reply demo_env_no_image = Inr ?r \<and> resp_parts ?r = Inr [\<lparr>inline_data = None\<rparr>]
            \<and> (first_inline [\<lparr>inline_data = None\<rparr>] = None
                \<or> first_inline [\<lparr>inline_data = None\<rparr>] = Some [])"
    by (simp add: demo_env_no_image_def)
  have m: "str_exn (no_image_data ?r) = ''No image data returned. Text response: I cannot draw that.''"
    by (simp add: no_image_data_def str_opt_def)
  have v1: "snd (generate demo_world (demo_form ?idea) demo_env_fail) =
       Jsonify 200 (JObj [(''detailed_prompt'', JStr ?idea),
                          (''image_url'', JNull),
                          (''image_path'', JNull),
                          (''image_status'', JStr ''Error generating image: 503 UNAVAILABLE'')])"
    by (simp add: demo_defs eval_defs)
  have v3: "snd (generate demo_world (demo_form ?idea) demo_env_no_image) =
       Jsonify 200
         (JObj [(''detailed_prompt'', JStr ''A cat''),
                (''image_url'', JNull),
                (''image_path'', JNull),
                (''image_status'',
                 JStr (''Error generating image: No image data returned. ''
                       @ ''Text response: I cannot draw that.''))])"
    by (simp add: demo_defs demo_env_no_image_def eval_defs)
  note t1 = generate_image_failure_response [where form = "demo_form ?idea" and w = demo_world
      and env = demo_env_fail, OF h1 h2 g1]
  note t3 = generate_image_failure_response [where form = "demo_form ?idea" and w = demo_world
      and env = demo_env_no_image, OF h1 h2 g2]
  have r1: "reports_error (snd (generate demo_world (demo_form ?idea) demo_env_fail))
        ''Error generating image: 503 UNAVAILABLE''"
  proof -
    from t1 c1 have "reports_error (snd (generate demo_world (demo_form ?idea) demo_env_fail))
        (''Error generating image: '' @ str_exn (Exn LibraryError ''503 UNAVAILABLE''))"
      by blast
    then show ?thesis by simp
  qed
  have r3:
    "reports_error (snd (generate demo_world (demo_form ?idea) demo_env_no_image))
        ''Error generating image: No image data returned. Text response: I cannot draw that.''"
  proof -
    from t3 c3 have "reports_error
        (snd (generate demo_world (demo_form ?idea) demo_env_no_image))
        (''Error generating image: '' @ str_exn (no_image_data ?r))"
      by blast
    with m show ?thesis by simp
  qed
  from h1 c1 r1 v1 r3 v3 show ?thesis
    by simp
qed

text \<open>
  C10. Every answer of \<open>/generate\<close> to a non-empty idea has status 200 and a body with
  exactly the keys \<open>detailed_prompt\<close>, \<open>image_url\<close>, \<open>image_path\<close>, \<open>image_status\<close>, in
  this order. A failed generation shows only in the body: both \<open>image_url\<close> and
  \<open>image_path\<close> are null and the status text starts with \<open>Error generating image: \<close>;
  otherwise both are non-empty strings and the status text reports success.
\<close>
theorem generate_always_200_four_keys:
  assumes "form ''idea'' = Some idea" and "idea \<noteq> []"
  shows "\<exists>detailed_prompt image_url image_path image_status.
           snd (generate w form env) =
             Jsonify 200 (JObj [(''detailed_prompt'', JStr detailed_prompt),
                                (''image_url'', image_url),
                                (''image_path'', image_path),
                                (''image_status'', JStr image_status)])
           \<and> http_status (snd (generate w form env)) = 200
           \<and> ((image_url = JNull \<and> image_path = JNull
                \<and> prefix ''Error generating image: '' image_status)
               \<or> (truthy image_url \<and> truthy image_path
                   \<and> image_status = ''Image generation successful!''))"
proof -
  obtain w1 dp where gp: "generate_prompt w env idea = (w1, dp)"
    by (cases "generate_prompt w env idea")
  obtain w2 ip iu status where gi: "generate_image w1 env dp = (w2, ip, iu, status)"
    by (cases "generate_image w1 env dp") auto
  note u = generate_unfold [where form = form, OF assms gp gi]
  from generate_image_shape [OF gi] show ?thesis
  proof
    assume "ip = None \<and> iu = None \<and> (\<exists>e. status = ''Error generating image: '' @ str_exn e)"
    with u show ?thesis
      by (auto simp add: opt_json_def)
  next
    assume "\<exists>a b. ip = Some a \<and> a \<noteq> [] \<and> iu = Some b \<and> b \<noteq> []
              \<and> status = ''Image generation successful!''"
    with u show ?thesis
      by (auto simp add: opt_json_def)
  qed
qed

theorem generate_always_200_four_keys_witness:
  "demo_form ''cat'' ''idea'' = Some ''cat''
   \<and> snd (generate demo_world (demo_form ''cat'') (demo_env_ok '' A cat  '' ''20251030_113543''))
       = Jsonify 200 demo_A
   \<and> http_status
        (snd (generate demo_world (demo_form ''cat'') (demo_env_ok '' A cat  '' ''20251030_113543'')))
       = 200"
proof -
  have h1: "demo_form ''cat'' ''idea'' = Some ''cat''"
    by (simp add: demo_form_def)
  have h2: "''cat'' \<noteq> []"
    by simp
  have v: "snd (generate demo_world (demo_form ''cat'')
                  (demo_env_ok '' A cat  '' ''20251030_113543'')) = Jsonify 200 demo_A"
    by (simp add: demo_defs eval_defs)
  from generate_always_200_four_keys [where form = "demo_form ''cat''" and w = demo_world
      and env = "demo_env_ok '' A cat  '' ''20251030_113543''", OF h1 h2] h1 v
  show ?thesis
    by simp
qed

lemma strip_eq_Nil: "strip t = [] \<longleftrightarrow> (\<forall>c \<in> set t. isspace c)"
proof -
  have "strip t = [] \<longleftrightarrow> (\<forall>c \<in> set (dropWhile isspace t). isspace c)"
    by (simp add: strip_def)
  also have "\<dots> \<longleftrightarrow> dropWhile isspace t = []"
  proof
    assume a: "\<forall>c \<in> set (dropWhile isspace t). isspace c"
    show "dropWhile isspace t = []"
    proof (rule ccontr)
      assume n: "dropWhile isspace t \<noteq> []"
      then have "\<not> isspace (hd (dropWhile isspace t))"
        by (rule hd_dropWhile)
      moreover have "hd (dropWhile isspace t) \<in> set (dropWhile isspace t)"
        using n by simp
      ultimately show False using a by blast
    qed
  next
    assume "dropWhile isspace t = []"
    then show "\<forall>c \<in> set (dropWhile isspace t). isspace c"
      by (auto dest: set_dropWhileD)
  qed
  also have "\<dots> \<longleftrightarrow> (\<forall>c \<in> set t. isspace c)"
    by simp
  finally show ?thesis .
qed

text \<open>
  C7. For every non-empty idea: when the call to the text service raises, or its
  response carries no text, \<open>generate_prompt\<close> returns the idea unchanged, a non-empty
  string, and nothing is raised to the caller; when the service answers with a text \<open>t\<close>,
  the result is \<open>t\<close> without its leading and trailing whitespace, which is non-empty
  exactly when \<open>t\<close> has a character that is not whitespace.
\<close>
theorem generate_prompt_fallback_or_strip:
  assumes "idea \<noteq> []"
  shows "snd (generate_prompt w env idea) =
           (case text_reply env of
              Inl e \<Rightarrow> idea
            | Inr None \<Rightarrow> idea
            | Inr (Some t) \<Rightarrow> strip t)
       \<and> ((\<exists>e. text_reply env = Inl e) \<longrightarrow>
            snd (generate_prompt w env idea) = idea \<and> snd (generate_prompt w env idea) \<noteq> [])
       \<and> (\<forall>t. text_reply env = Inr (Some t) \<longrightarrow>
            (snd (generate_prompt w env idea) \<noteq> [] \<longleftrightarrow> (\<exists>c \<in> set t. \<not> isspace c)))"
  using assms
  by (auto simp add: generate_prompt_def Let_def strip_eq_Nil split: sum.splits option.splits)

theorem generate_prompt_fallback_or_strip_witness:
  "''a cat in a hat'' \<noteq> []
   \<and> text_reply demo_env_fail = Inl (Exn LibraryError ''503 UNAVAILABLE'')
   \<and> snd (generate_prompt demo_world demo_env_fail ''a cat in a hat'') = ''a cat in a hat''
   \<and> snd (generate_prompt demo_world (demo_env_ok '' A cat  '' ''20251030_113543'') ''cat'')
       = ''A cat''"
proof -
  have h: "''a cat in a hat'' \<noteq> []"
    by simp
  have h': "''cat'' \<noteq> []"
    by simp
  have r: "text_reply demo_env_fail = Inl (Exn LibraryError ''503 UNAVAILABLE'')"
    by (simp add: demo_env_fail_def)
  have s: "strip '' A cat  '' = ''A cat''"
    by (simp add: strip_def isspace_def)
  from generate_prompt_fallback_or_strip [OF h, of demo_world demo_env_fail]
    generate_prompt_fallback_or_strip [OF h', of demo_world
      "demo_env_ok '' A cat  '' ''20251030_113543''"] r s
  show ?thesis
    by (simp add: demo_env_ok_def)
qed

text \<open>
  The whitespace-only reply: the text service answers a non-empty idea with a single space and
  \<open>generate_prompt\<close> returns the empty string.
\<close>
theorem generate_prompt_empty_counterexample:
  "''a cat in a hat'' \<noteq> []
   \<and> snd (generate_prompt demo_world (demo_env_ok '' '' ''20251030_113543'') ''a cat in a hat'')
       = []"
  by (simp add: generate_prompt_def demo_env_ok_def strip_def isspace_def Let_def)

lemma full_login_session: "session (fst (full_login w env u p)) = session w"
  by (simp add: full_login_def login_failed_def remove_if_exists_def Let_def
      split: prod.splits option.splits)

lemma login_instagram_session: "session (fst (login_instagram w env)) = session w"
  by (simp add: login_instagram_def load_session_def full_login_session Let_def
      split: sum.splits prod.splits option.splits)

lemma post_to_instagram_session: "session (fst (post_to_instagram w env p c)) = session w"
proof (cases "fs w p")
  case None
  then show ?thesis by (simp add: post_to_instagram_def)
next
  case (Some f)
  obtain w1 r where l: "login_instagram w env = (w1, r)"
    by (cases "login_instagram w env")
  have "session w1 = session w"
    using login_instagram_session [of w env] l by simp
  with Some l show ?thesis
    by (simp add: post_to_instagram_def Let_def split: sum.splits prod.splits option.splits)
qed

lemma post_session: "session (fst (post w data env)) = session w"
proof (cases data)
  case (JObj kvs)
  show ?thesis
  proof (cases "dict_get kvs ''image_path'' JNull")
    case (JStr p)
    obtain w1 ok where pt: "post_to_instagram w env p
        (dict_get kvs ''caption'' (JStr ''Generated by Gemini API.'')) = (w1, ok)"
      by (cases "post_to_instagram w env p
        (dict_get kvs ''caption'' (JStr ''Generated by Gemini API.''))")
    have "session w1 = session w"
      using post_to_instagram_session [of w env p
          "dict_get kvs ''caption'' (JStr ''Generated by Gemini API.'')"] pt by simp
    with JObj JStr pt show ?thesis
      by (simp add: post_def Let_def)
  qed (simp_all add: JObj post_def Let_def)
qed (simp_all add: post_def)

lemma login_submit_prev:
  "session (fst (handle_instagram_login w form env)) ''last_generated_image_data_prev'' =
   session w ''last_generated_image_data_prev''"
  by (simp add: handle_instagram_login_def login_rejected_def flash_def remove_if_exists_def
      Let_def split: prod.splits option.splits)

lemma logout_prev:
  "session (fst (logout w)) ''last_generated_image_data_prev'' =
   session w ''last_generated_image_data_prev''"
  by (simp add: logout_def flash_def remove_if_exists_def)

lemma handle_keeps_previous_empty:
  assumes e: "\<not> truthy (session_get (session w) ''last_generated_image_data_prev'')"
    and n: "\<not> records_success w r"
  shows "\<not> truthy (session_get (session (fst (handle w r))) ''last_generated_image_data_prev'')"
proof (cases r)
  case GetIndex
  with e show ?thesis by (simp add: index_def Let_def)
next
  case GetLoginPage
  with e show ?thesis by (simp add: instagram_login_page_def)
next
  case (PostLoginSubmit form env)
  with e login_submit_prev [of w form env] show ?thesis
    by (simp add: session_get_def)
next
  case GetLogout
  with e logout_prev [of w] show ?thesis
    by (simp add: session_get_def)
next
  case (PostGenerate form env)
  obtain st R where j: "snd (generate w form env) = Jsonify st R"
    using generate_is_jsonify by blast
  with n PostGenerate have "\<not> successful R"
    by simp
  with generate_session [OF j] have "session (fst (generate w form env)) = session w"
    by simp
  with e PostGenerate show ?thesis by simp
next
  case GetLastImage
  with get_last_image_empty [OF e] e show ?thesis by simp
next
  case (PostPost data env)
  with e post_session [of w data env] show ?thesis by simp
qed

lemma run_keeps_previous_empty:
  "\<not> truthy (session_get (session w) ''last_generated_image_data_prev'') \<Longrightarrow>
   no_success w rs \<Longrightarrow>
   \<not> truthy (session_get (session (run w rs)) ''last_generated_image_data_prev'')"
proof (induction rs arbitrary: w)
  case Nil
  then show ?case by simp
next
  case (Cons r rs)
  from Cons.prems have n: "\<not> records_success w r" and ns: "no_success (fst (handle w r)) rs"
    by simp_all
  have "\<not> truthy (session_get (session (fst (handle w r))) ''last_generated_image_data_prev'')"
    using Cons.prems(1) n by (rule handle_keeps_previous_empty)
  from Cons.IH [OF this ns] show ?case by simp
qed

text \<open>
  C2. In every state whose previous slot is empty, \<open>GET /last_image\<close> answers with status
  404 and changes nothing, so repeating it gives the same answer. After any
  \<open>GET /last_image\<close>, and after any further requests none of which records a successful
  generation, \<open>GET /last_image\<close> again answers 404 and changes nothing: the first call
  emptied the previous slot and only a recorded generation fills it.
\<close>
theorem pop_previous_empty_fails:
  "(\<not> truthy (session_get (session w) ''last_generated_image_data_prev'') \<longrightarrow>
      get_last_image w =
        (w, Jsonify 404 (JObj [(''error'', JStr ''No previous image data found.'')])))
   \<and> (no_success (fst (get_last_image w)) rs \<longrightarrow>
      get_last_image (run (fst (get_last_image w)) rs) =
        (run (fst (get_last_image w)) rs,
         Jsonify 404 (JObj [(''error'', JStr ''No previous image data found.'')])))"
proof (intro conjI impI)
  assume "\<not> truthy (session_get (session w) ''last_generated_image_data_prev'')"
  then show "get_last_image w =
        (w, Jsonify 404 (JObj [(''error'', JStr ''No previous image data found.'')]))"
    by (rule get_last_image_empty)
next
  assume ns: "no_success (fst (get_last_image w)) rs"
  have "\<not> truthy (session_get (session (run (fst (get_last_image w)) rs))
           ''last_generated_image_data_prev'')"
    using get_last_image_clears ns by (rule run_keeps_previous_empty)
  then show "get_last_image (run (fst (get_last_image w)) rs) =
        (run (fst (get_last_image w)) rs,
         Jsonify 404 (JObj [(''error'', JStr ''No previous image data found.'')]))"
    by (rule get_last_image_empty)
qed

lemmas route_defs = index_def instagram_login_page_def handle_instagram_login_def
  login_rejected_def logout_def post_def post_to_instagram_def login_instagram_def
  full_login_def login_failed_def load_session_def credentials_def flash_def
  remove_if_exists_def INSTAGRAM_SESSION_FILE_def

theorem pop_previous_empty_fails_witness:
  "snd (get_last_image demo_world_AB) = Jsonify 200 demo_A
   \<and> \<not> truthy (session_get (session (fst (get_last_image demo_world_AB)))
                  ''last_generated_image_data_prev'')
   \<and> get_last_image (fst (get_last_image demo_world_AB)) =
       (fst (get_last_image demo_world_AB),
        Jsonify 404 (JObj [(''error'', JStr ''No previous image data found.'')]))
   \<and> no_success (fst (get_last_image demo_world_AB)) demo_requests
   \<and> snd (get_last_image (run (fst (get_last_image demo_world_AB)) demo_requests)) =
       Jsonify 404 (JObj [(''error'', JStr ''No previous image data found.'')])"
proof -
  let ?w = "fst (get_last_image demo_world_AB)"
  have p: "snd (get_last_image demo_world_AB) = Jsonify 200 demo_A"
    by (simp add: demo_defs eval_defs)
  have e: "\<not> truthy (session_get (session ?w) ''last_generated_image_data_prev'')"
    by (simp add: get_last_image_def Let_def session_get_def)
  have ns: "no_success ?w demo_requests"
    by (simp add: demo_requests_def demo_defs eval_defs route_defs)
  from pop_previous_empty_fails [of ?w demo_requests] e
  have a: "get_last_image ?w =
       (?w, Jsonify 404 (JObj [(''error'', JStr ''No previous image data found.'')]))"
    by blast
  from pop_previous_empty_fails [of demo_world_AB demo_requests] ns
  have b: "get_last_image (run ?w demo_requests) =
        (run ?w demo_requests,
         Jsonify 404 (JObj [(''error'', JStr ''No previous image data found.'')]))"
    by blast
  from p e ns a b show ?thesis
    by simp
qed

text \<open>
  C6. Let \<open>login_instagram\<close> find credentials and a client that is not logged in after the
  session file, if any, was loaded, so that it performs the full login. If \<open>cl.login\<close>
  raises, \<open>login_instagram\<close> raises a \<open>ConnectionError\<close> and no session file is left on
  disk. If the login and the saving of the settings both succeed, it returns normally and the
  session file holds the settings of the client. A failure to save is treated as a failed
  login. Whenever it returns normally on this path, the session file holds the settings of
  the process-wide client.
\<close>
theorem login_failure_deletes_session_file:
  assumes c: "credentials w = Inr (username, password)"
    and n: "\<not> logged_in (cl (load_session w env))"
    and l: "login env (cl (load_session w env)) username password = (err, c')"
  shows "(\<forall>e. err = Some e \<longrightarrow>
            snd (login_instagram w env) =
              Inl (Exn ConnectionError (''Failed to log in to Instagram: '' @ str_exn e))
            \<and> fs (fst (login_instagram w env)) INSTAGRAM_SESSION_FILE = None)
       \<and> (err = None \<and> dump_settings env c' = None \<longrightarrow>
            snd (login_instagram w env) = Inr ()
            \<and> cl (fst (login_instagram w env)) = c'
            \<and> fs (fst (login_instagram w env)) INSTAGRAM_SESSION_FILE =
                Some (SettingsFile (settings c')))
       \<and> (\<forall>e. err = None \<and> dump_settings env c' = Some e \<longrightarrow>
            snd (login_instagram w env) =
              Inl (Exn ConnectionError (''Failed to log in to Instagram: '' @ str_exn e))
            \<and> fs (fst (login_instagram w env)) INSTAGRAM_SESSION_FILE = None)
       \<and> (snd (login_instagram w env) = Inr () \<longrightarrow>
            fs (fst (login_instagram w env)) INSTAGRAM_SESSION_FILE =
              Some (SettingsFile (settings (cl (fst (login_instagram w env))))))"
  using c n l
  by (auto simp add: login_instagram_def full_login_def login_failed_def remove_if_exists_def
      Let_def split: option.splits)

theorem login_failure_deletes_session_file_witness:
  "credentials demo_world_login = Inr (JStr ''someone'', JStr ''secret'')
   \<and> fs demo_world_login INSTAGRAM_SESSION_FILE = Some (SettingsFile ''stale'')
   \<and> snd (login_instagram demo_world_login demo_ig_fail) =
       Inl (Exn ConnectionError ''Failed to log in to Instagram: bad_password'')
   \<and> fs (fst (login_instagram demo_world_login demo_ig_fail)) INSTAGRAM_SESSION_FILE = None
   \<and> snd (login_instagram demo_world_login demo_ig_ok) = Inr ()
   \<and> fs (fst (login_instagram demo_world_login demo_ig_ok)) INSTAGRAM_SESSION_FILE =
       Some (SettingsFile ''sessionid'')"
proof -
  have c: "credentials demo_world_login = Inr (JStr ''someone'', JStr ''secret'')"
    by (simp add: credentials_def demo_world_login_def session_get_def Let_def)
  have f: "fs demo_world_login INSTAGRAM_SESSION_FILE = Some (SettingsFile ''stale'')"
    by (simp add: demo_world_login_def)
  have n1: "\<not> logged_in (cl (load_session demo_world_login demo_ig_fail))"
    by (simp add: load_session_def demo_world_login_def demo_ig_fail_def Client_def)
  have n2: "\<not> logged_in (cl (load_session demo_world_login demo_ig_ok))"
    by (simp add: load_session_def demo_world_login_def demo_ig_ok_def Client_def)
  have l1: "login demo_ig_fail (cl (load_session demo_world_login demo_ig_fail))
              (JStr ''someone'') (JStr ''secret'') =
            (Some (Exn LibraryError ''bad_password''), Client)"
    by (simp add: load_session_def demo_world_login_def demo_ig_fail_def)
  have l2: "login demo_ig_ok (cl (load_session demo_world_login demo_ig_ok))
              (JStr ''someone'') (JStr ''secret'') =
            (None, \<lparr>logged_in = True, settings = ''sessionid''\<rparr>)"
    by (simp add: demo_ig_ok_def)
  have d: "dump_settings demo_ig_ok \<lparr>logged_in = True, settings = ''sessionid''\<rparr> = None"
    by (simp add: demo_ig_ok_def)
  from login_failure_deletes_session_file [OF c n1 l1]
    login_failure_deletes_session_file [OF c n2 l2] c f d
  show ?thesis
    by simp
qed

text \<open>
  C5. For every request to \<open>/post\<close> whose body is a JSON object, whatever its
  keys and values, and whose browser session has no key \<open>instagram_username\<close>, the answer
  has status 401 and the state is unchanged: no login and no upload is attempted.
\<close>
theorem post_unauthenticated_object_401:
  assumes "session w ''instagram_username'' = None"
  shows "post w (JObj kvs) env =
           (w, Jsonify 401
                 (JObj [(''success'', JBool False),
                        (''message'', JStr ''Please log in to Instagram first.''),
                        (''redirect_to'', JStr ''/login/instagram'')]))
       \<and> http_status (snd (post w (JObj kvs) env)) = 401
       \<and> trace (fst (post w (JObj kvs) env)) = trace w
       \<and> cl (fst (post w (JObj kvs) env)) = cl w"
  using assms by (simp add: post_def Let_def)

theorem post_unauthenticated_object_401_witness:
  "session demo_world_AB ''instagram_username'' = None
   \<and> post demo_world_AB (JObj [(''caption'', JStr ''hello'')]) demo_ig_ok =
       (demo_world_AB,
        Jsonify 401
          (JObj [(''success'', JBool False),
                 (''message'', JStr ''Please log in to Instagram first.''),
                 (''redirect_to'', JStr ''/login/instagram'')]))"
proof -
  have h: "session demo_world_AB ''instagram_username'' = None"
    by (simp add: demo_defs eval_defs)
  from post_unauthenticated_object_401 [OF h] h show ?thesis
    by simp
qed

text \<open>
  A body that is a JSON array: \<open>data.get\<close> raises before the session is looked at, and
  the answer is not 401.
\<close>
theorem post_unauthenticated_not_401_counterexample:
  "session demo_world ''instagram_username'' = None
   \<and> snd (post demo_world (JArr []) demo_ig_ok) =
       Unhandled
         (Exn AttributeError
            ([CHR 0x27] @ ''list'' @ [CHR 0x27] @ '' object has no attribute ''
             @ [CHR 0x27] @ ''get'' @ [CHR 0x27]))
   \<and> http_status (snd (post demo_world (JArr []) demo_ig_ok)) \<noteq> 401"
  by (simp add: post_def demo_world_def)

text \<open>
  C8. \<open>GET /logout\<close> after two recorded generations: the current slot is removed from the
  session, the previous slot is still there, and a later \<open>GET /last_image\<close> answers with
  the image recorded before the logout.
\<close>
theorem logout_keeps_previous_slot:
  "session demo_world_AB ''last_generated_image_data_prev'' = Some demo_A
   \<and> session (fst (logout demo_world_AB)) ''last_generated_image_data'' = None
   \<and> session (fst (logout demo_world_AB)) ''last_generated_image_data_prev'' = Some demo_A
   \<and> snd (get_last_image (fst (logout demo_world_AB))) = Jsonify 200 demo_A
   \<and> fs (fst (logout demo_world_AB)) INSTAGRAM_SESSION_FILE = None
   \<and> cl (fst (logout demo_world_AB)) = Client"
  by (simp add: demo_defs eval_defs route_defs)

end
